theory Spec2Isabelle
  imports Complex_Main "HOL-Library.Multiset" "HOL-Library.Sublist"
begin

section \<open>Python strings\<close>

text \<open>
  Python strings are modelled as lists of 8-bit characters, read as the code points 0
  to 255 (ASCII and the Latin-1 supplement); text with code points beyond 255 is outside
  the model. On this range \<open>str.lower\<close> maps the letters A to Z and the capitals 192
  to 222 other than the multiplication sign 215 to the code point 32 above, and leaves
  every other character as it is.
\<close>

datatype py_error = KeyError | AttributeError | TypeError | IndexError | ValueError
  | UnboundLocalError | JSONDecodeError | RecursionError

definition lower_char :: "char \<Rightarrow> char" where
  "lower_char c =
     (let n = (of_char c :: nat) in
      if (65 \<le> n \<and> n \<le> 90) \<or> (192 \<le> n \<and> n \<le> 214) \<or> (216 \<le> n \<and> n \<le> 222)
      then char_of (n + 32) else c)"

text \<open>\<open>s.lower()\<close>\<close>

definition py_lower :: "string \<Rightarrow> string" where
  "py_lower s = map lower_char s"

text \<open>\<open>sub in s\<close>: \<open>sub\<close> occurs in \<open>s\<close> as a contiguous run of characters.\<close>

definition py_in :: "string \<Rightarrow> string \<Rightarrow> bool" where
  "py_in sub s = sublist sub s"

text \<open>The characters below 256 that \<open>str.isspace\<close> accepts, at which
  \<open>str.split\<close> splits and which \<open>str.strip\<close> removes: tab, line feed, vertical tab,
  form feed, carriage return, the four separators 28 to 31, the space, the next-line
  character 133 and the no-break space 160.\<close>

definition is_space :: "char \<Rightarrow> bool" where
  "is_space c = ((of_char c :: nat) \<in> {9, 10, 11, 12, 13, 28, 29, 30, 31, 32, 133, 160})"

text \<open>\<open>s.strip()\<close>\<close>

definition py_strip :: "string \<Rightarrow> string" where
  "py_strip s = rev (dropWhile is_space (rev (dropWhile is_space s)))"

text \<open>\<open>s.split()\<close>: the maximal runs of non-whitespace characters, in order. The
  first argument holds the word being read, reversed.\<close>

fun split_words :: "string \<Rightarrow> string \<Rightarrow> string list" where
  "split_words w [] = (if w = [] then [] else [rev w])"
| "split_words w (c # cs) =
     (if is_space c then (if w = [] then split_words [] cs else rev w # split_words [] cs)
      else split_words (c # w) cs)"

definition py_split :: "string \<Rightarrow> string list" where
  "py_split s = split_words [] s"

text \<open>\<open>s.replace(old, new)\<close>: the occurrences of \<open>old\<close> are replaced from left to
  right, without overlap; an empty \<open>old\<close> matches before every character and at the end.\<close>

function py_replace :: "string \<Rightarrow> string \<Rightarrow> string \<Rightarrow> string" where
  "py_replace old new s =
     (if old = [] then concat (map (\<lambda>c. new @ [c]) s) @ new
      else if s = [] then []
      else if prefix old s then new @ py_replace old new (drop (length old) s)
      else hd s # py_replace old new (tl s))"
  by pat_completeness auto
termination
  by (relation "measure (\<lambda>(old, new, s). length s)") auto

declare py_replace.simps [simp del]

text \<open>\<open>sep.join(xs)\<close>\<close>

fun py_join :: "string \<Rightarrow> string list \<Rightarrow> string" where
  "py_join sep [] = []"
| "py_join sep [x] = x"
| "py_join sep (x # y # ys) = x @ sep @ py_join sep (y # ys)"

text \<open>Truth value of an optional string (\<open>d.get(key)\<close>): absent and empty are false.\<close>

definition str_truthy :: "string option \<Rightarrow> bool" where
  "str_truthy v = (case v of None \<Rightarrow> False | Some s \<Rightarrow> s \<noteq> [])"

text \<open>\<open>d.get(key, '')\<close>\<close>

definition str_or_empty :: "string option \<Rightarrow> string" where
  "str_or_empty v = (case v of None \<Rightarrow> [] | Some s \<Rightarrow> s)"

section \<open>Data model\<close>

subsection \<open>UI hierarchy nodes\<close>

text \<open>
  A node of the UI hierarchy is a Python dict. The agents read eight keys of it, each
  with \<open>node.get(key, default)\<close>, so every key is optional: \<open>None\<close> stands for
  an absent key. Texts and identifiers are strings, bounds a list of integers, and
  \<open>children\<close> a list of nodes.
\<close>

datatype ui_node = UINode
  (nd_class: "string option")
  (nd_text: "string option")
  (nd_content_desc: "string option")
  (nd_resource_id: "string option")
  (nd_bounds: "int list option")
  (nd_clickable: "bool option")
  (nd_scrollable: "bool option")
  (nd_children: "ui_node list option")

text \<open>\<open>node.get('children', [])\<close>\<close>

definition children_of :: "ui_node \<Rightarrow> ui_node list" where
  "children_of node = (case nd_children node of None \<Rightarrow> [] | Some cs \<Rightarrow> cs)"

lemma size_children_of [termination_simp]:
  "child \<in> set (children_of node) \<Longrightarrow> size child < size node"
proof (cases node)
  case (UINode cl tx cd ri b ck sc ch)
  assume mem: "child \<in> set (children_of node)"
  show ?thesis
  proof (cases ch)
    case None
    with UINode mem show ?thesis by (simp add: children_of_def)
  next
    case (Some cs)
    with UINode mem have "child \<in> set cs" by (simp add: children_of_def)
    then have "size child \<le> size_list size cs" by (rule size_list_estimation') simp
    with UINode Some show ?thesis by simp
  qed
qed

text \<open>The empty dict \<open>{}\<close>, the only dict Python counts as false.\<close>

definition empty_dict :: ui_node where
  "empty_dict = UINode None None None None None None None None"

definition dict_truthy :: "ui_node \<Rightarrow> bool" where
  "dict_truthy node = (node \<noteq> empty_dict)"

subsection \<open>Plan steps, observations, actions and step results\<close>

text \<open>
  A plan step is a dict; \<open>None\<close> is an absent key. \<open>step['action']\<close> and
  \<open>step['target']\<close> raise \<open>KeyError\<close> on an absent key, the other keys are read with
  \<open>.get\<close>.
\<close>

record step =
  s_action :: "string option"
  s_target :: "string option"
  s_text :: "string option"
  s_verification :: "string option"
  s_fallback :: "string option"

text \<open>The pixel array of a screenshot is opaque to the agents.\<close>

type_synonym pixels = "nat list"

text \<open>What \<open>env.observe()\<close> returns; every key is read with \<open>.get\<close>.\<close>

record observation =
  o_pixels :: "pixels option"
  o_ui_tree :: "ui_node option"
  o_screen_height :: "int option"
  o_screen_width :: "int option"

text \<open>The dicts handed to \<open>env.step\<close>: a touch at a coordinate, or a swipe between two
  coordinates with a duration in milliseconds.\<close>

datatype action = Touch "int \<times> int" | Swipe "int \<times> int" "int \<times> int" int

text \<open>The \<open>details\<close> dict of a step result: \<open>{"error": ...}\<close>,
  \<open>{"tapped_at": [x, y], "element": ...}\<close>, \<open>{"scrolled": ..., "distance": ...}\<close> or
  \<open>{"waited": ...}\<close>.\<close>

datatype details =
    ErrorDetails string
  | TappedAt "int \<times> int" string
  | Scrolled string int
  | Waited string

record exec_result =
  r_step :: step
  r_success :: bool
  r_details :: details
  r_screenshot :: "pixels option"
  r_ui_hierarchy :: "ui_node option"

text \<open>
  The Android environment is an external collaborator: \<open>observe\<close> reads the screen of
  the environment state, \<open>step\<close> applies an action to it. \<open>float(...)\<close> is Python's
  builtin parser of float literals, a parameter as well: \<open>None\<close> when the word is no
  literal of a finite number, where \<open>float\<close> raises \<open>ValueError\<close> or
  \<open>time.sleep\<close> rejects the value.
\<close>

record 'e android_env =
  env_observe :: "'e \<Rightarrow> observation"
  env_step :: "action \<Rightarrow> 'e \<Rightarrow> 'e"
  py_float :: "string \<Rightarrow> real option"

text \<open>The mutable state of an executor run: the environment, the attribute
  \<open>current_observation\<close>, and the durations slept by \<open>time.sleep\<close>.\<close>

record 'e executor_state =
  ex_env :: 'e
  ex_current_observation :: "observation option"
  ex_slept :: "real list"

subsection \<open>Verification results\<close>

text \<open>
  One verification dict per step (\<open>agents/verifier_agent.py\<close>). Its keys are read
  with \<open>.get\<close>, so each field is optional. The statuses are Python strings. The
  confidence is a Python float; the only operation on it is the comparison with the
  literal \<open>0.7\<close>, which is exact on the values, so it is a real number here.
  \<open>v_current_state\<close> is \<open>Some None\<close> when the key holds Python's \<open>None\<close>.
\<close>

record verification =
  v_step_num :: "nat option"
  v_status :: "string option"
  v_reason :: "string option"
  v_confidence :: "real option"
  v_error :: "string option"
  v_needs_replanning :: "bool option"
  v_current_state :: "ui_node option option"

section \<open>Flattening the UI tree (\<open>utils/android_helper.py\<close>)\<close>

text \<open>The element dicts that \<open>parse_ui_tree\<close> builds: every key is filled, with the
  defaults of the \<open>node.get\<close> calls.\<close>

record element =
  el_depth :: int
  el_class :: string
  el_text :: string
  el_content_desc :: string
  el_resource_id :: string
  el_bounds :: "int list"
  el_clickable :: bool
  el_scrollable :: bool

text \<open>The dict built at the head of \<open>traverse\<close>.\<close>

definition element_of :: "int \<Rightarrow> ui_node \<Rightarrow> element" where
  "element_of depth node =
     \<lparr> el_depth = depth,
       el_class = str_or_empty (nd_class node),
       el_text = str_or_empty (nd_text node),
       el_content_desc = str_or_empty (nd_content_desc node),
       el_resource_id = str_or_empty (nd_resource_id node),
       el_bounds = (case nd_bounds node of None \<Rightarrow> [] | Some b \<Rightarrow> b),
       el_clickable = (case nd_clickable node of None \<Rightarrow> False | Some b \<Rightarrow> b),
       el_scrollable = (case nd_scrollable node of None \<Rightarrow> False | Some b \<Rightarrow> b) \<rparr>"

text \<open>\<open>any([element['text'], element['content_desc'], element['resource_id']])\<close>\<close>

definition identifiable :: "element \<Rightarrow> bool" where
  "identifiable e = (el_text e \<noteq> [] \<or> el_content_desc e \<noteq> [] \<or> el_resource_id e \<noteq> [])"

text \<open>The inner function \<open>traverse(node, depth)\<close> of \<open>parse_ui_tree\<close>; the elements
  it appends to the shared list are returned in the order of the appends.\<close>

fun traverse :: "int \<Rightarrow> ui_node \<Rightarrow> int \<Rightarrow> element list" where
  "traverse max_depth node depth =
     (if depth > max_depth then []
      else
        (let element = element_of depth node in
         (if identifiable element then [element] else [])
         @ concat (map (\<lambda>child. traverse max_depth child (depth + 1)) (children_of node))))"

declare traverse.simps [simp del]

text \<open>\<open>AndroidHelper.parse_ui_tree(ui_tree, max_depth)\<close>; \<open>max_depth\<close> defaults
  to 10.\<close>

definition parse_ui_tree :: "ui_node \<Rightarrow> int \<Rightarrow> element list" where
  "parse_ui_tree ui_tree max_depth = traverse max_depth ui_tree 0"

section \<open>Executor (\<open>agents/executor_agent.py\<close>)\<close>

text \<open>The test of \<open>search_tree\<close>: the lower-cased target occurs in the node's text,
  content description or resource id.\<close>

definition node_matches :: "string \<Rightarrow> ui_node \<Rightarrow> bool" where
  "node_matches target_lower node =
     (let node_text = py_lower (str_or_empty (nd_text node));
          node_desc = py_lower (str_or_empty (nd_content_desc node));
          node_id = py_lower (str_or_empty (nd_resource_id node))
      in py_in target_lower node_text \<or> py_in target_lower node_desc
         \<or> py_in target_lower node_id)"

text \<open>\<open>search_tree(node)\<close>: the node itself when it matches, else the first child
  whose search returns a dict that counts as true. \<open>first_found\<close> is the loop over the
  children.\<close>

fun first_found :: "ui_node option list \<Rightarrow> ui_node option" where
  "first_found [] = None"
| "first_found (None # rest) = first_found rest"
| "first_found (Some result # rest) =
     (if dict_truthy result then Some result else first_found rest)"

fun search_tree :: "string \<Rightarrow> ui_node \<Rightarrow> ui_node option" where
  "search_tree target_lower node =
     (if node_matches target_lower node then Some node
      else first_found (map (search_tree target_lower) (children_of node)))"

declare search_tree.simps [simp del]

text \<open>\<open>ExecutorAgent._find_ui_element\<close>\<close>

definition find_ui_element :: "string \<Rightarrow> ui_node \<Rightarrow> ui_node option" where
  "find_ui_element target ui_tree = search_tree (py_lower target) ui_tree"

text \<open>\<open>ExecutorAgent._execute_tap\<close>. \<open>not element\<close> holds of \<open>None\<close> and of the
  empty dict. The result is the new environment state, the success flag and the details.\<close>

definition execute_tap ::
  "'e android_env \<Rightarrow> string \<Rightarrow> observation \<Rightarrow> 'e \<Rightarrow> 'e \<times> bool \<times> details" where
  "execute_tap E target observation env =
     (let ui_tree = (case o_ui_tree observation of None \<Rightarrow> empty_dict | Some t \<Rightarrow> t) in
      case find_ui_element target ui_tree of
        None \<Rightarrow> (env, False, ErrorDetails (''Could not find element: '' @ target))
      | Some element \<Rightarrow>
          if \<not> dict_truthy element
          then (env, False, ErrorDetails (''Could not find element: '' @ target))
          else
            (let bounds = (case nd_bounds element of None \<Rightarrow> [] | Some b \<Rightarrow> b) in
             if length bounds = 4 then
               (let x = (bounds ! 0 + bounds ! 2) div 2;
                    y = (bounds ! 1 + bounds ! 3) div 2
                in (env_step E (Touch (x, y)) env, True,
                    TappedAt (x, y) (str_or_empty (nd_text element))))
             else (env, False, ErrorDetails ''Invalid element bounds'')))"

text \<open>\<open>ExecutorAgent._execute_scroll\<close>\<close>

definition execute_scroll ::
  "'e android_env \<Rightarrow> string \<Rightarrow> observation \<Rightarrow> 'e \<Rightarrow> 'e \<times> bool \<times> details" where
  "execute_scroll E target observation env =
     (let screen_height = (case o_screen_height observation of None \<Rightarrow> 1920 | Some h \<Rightarrow> h);
          screen_width = (case o_screen_width observation of None \<Rightarrow> 1080 | Some w \<Rightarrow> w);
          start_x = screen_width div 2;
          start_y = screen_height * 3 div 4;
          end_x = screen_width div 2;
          end_y = screen_height div 4
      in (env_step E (Swipe (start_x, start_y) (end_x, end_y) 500) env, True,
          Scrolled ''down'' (start_y - end_y)))"

text \<open>
  The body of the loop of \<open>_execute_plan\<close> for one step. The log line formats
  \<open>step['action']\<close> and \<open>step['target']\<close> first, so a step without either key
  raises \<open>KeyError\<close>. The class has no method \<open>_execute_type\<close>, so a \<open>type\<close> step
  raises \<open>AttributeError\<close>. A \<open>wait\<close> step sleeps for the first word of the target read
  as a float: \<open>IndexError\<close> when the target has no word, \<open>ValueError\<close> when the word is
  no float or the duration is negative.
\<close>

definition execute_step ::
  "'e android_env \<Rightarrow> 'e executor_state \<Rightarrow> step \<Rightarrow> py_error + ('e executor_state \<times> exec_result)" where
  "execute_step E st step =
     (case s_action step of
        None \<Rightarrow> Inl KeyError
      | Some act \<Rightarrow>
     (case s_target step of
        None \<Rightarrow> Inl KeyError
      | Some target \<Rightarrow>
     (let observation = env_observe E (ex_env st);
          st1 = st\<lparr>ex_current_observation := Some observation\<rparr>;
          record_result = (\<lambda>st2 success details.
            Inr (st2, \<lparr> r_step = step, r_success = success, r_details = details,
                         r_screenshot = o_pixels observation,
                         r_ui_hierarchy = o_ui_tree observation \<rparr>))
      in
        if act = ''tap'' then
          (case execute_tap E target observation (ex_env st1) of
             (env', success, details) \<Rightarrow> record_result (st1\<lparr>ex_env := env'\<rparr>) success details)
        else if act = ''scroll'' then
          (case execute_scroll E target observation (ex_env st1) of
             (env', success, details) \<Rightarrow> record_result (st1\<lparr>ex_env := env'\<rparr>) success details)
        else if act = ''type'' then Inl AttributeError
        else if act = ''wait'' then
          (case py_split target of
             [] \<Rightarrow> Inl IndexError
           | word # _ \<Rightarrow>
               (case py_float E word of
                  None \<Rightarrow> Inl ValueError
                | Some seconds \<Rightarrow>
                    if seconds < 0 then Inl ValueError
                    else record_result (st1\<lparr>ex_slept := ex_slept st1 @ [seconds]\<rparr>)
                           True (Waited target)))
        else record_result st1 False (ErrorDetails (''Unknown action: '' @ act)))))"

text \<open>The stop test at the end of the loop body:
  \<open>not success and not step.get('fallback')\<close>. A fallback that is absent or the empty
  string counts as no fallback.\<close>

definition stops_plan :: "exec_result \<Rightarrow> bool" where
  "stops_plan result = (\<not> r_success result \<and> \<not> str_truthy (s_fallback (r_step result)))"

text \<open>\<open>ExecutorAgent._execute_plan\<close>: the loop over the plan, with its \<open>break\<close>. An
  exception of a step ends the call without a result list.\<close>

fun execute_plan ::
  "'e android_env \<Rightarrow> 'e executor_state \<Rightarrow> step list
     \<Rightarrow> py_error + ('e executor_state \<times> exec_result list)" where
  "execute_plan E st [] = Inr (st, [])"
| "execute_plan E st (step # rest) =
     (case execute_step E st step of
        Inl err \<Rightarrow> Inl err
      | Inr (st', result) \<Rightarrow>
          if \<not> r_success result \<and> \<not> str_truthy (s_fallback step) then Inr (st', [result])
          else
            (case execute_plan E st' rest of
               Inl err \<Rightarrow> Inl err
             | Inr (st'', results) \<Rightarrow> Inr (st'', result # results)))"

text \<open>\<open>ExecutorAgent._get_element_center\<close> of the second executor
  (\<open>multi_agent_qa/agents/executor_agent.py\<close>): bounds default to \<open>[0, 0, 100, 100]\<close>,
  and fewer than four components give the middle of the screen.\<close>

definition get_element_center :: "ui_node \<Rightarrow> int \<times> int" where
  "get_element_center element =
     (let bounds = (case nd_bounds element of None \<Rightarrow> [0, 0, 100, 100] | Some b \<Rightarrow> b) in
      if length bounds \<ge> 4 then
        (let center_x = (bounds ! 0 + bounds ! 2) div 2;
             center_y = (bounds ! 1 + bounds ! 3) div 2
         in (center_x, center_y))
      else (400, 400))"

section \<open>The language-model client\<close>

text \<open>
  The client is an external collaborator with one operation, \<open>generate(prompt)\<close>. Its
  answer may depend on the prompts it has seen; the list of those prompts is the state
  that records every call.
\<close>

type_synonym llm_client = "string list \<Rightarrow> string \<Rightarrow> string"

definition generate :: "llm_client \<Rightarrow> string \<Rightarrow> string list \<Rightarrow> string \<times> string list" where
  "generate llm prompt calls = (llm calls prompt, calls @ [prompt])"

section \<open>Planner (\<open>agents/planner_agent.py\<close>)\<close>

text \<open>The values \<open>json.loads\<close> returns.\<close>

datatype json =
    JNull
  | JBool bool
  | JInt int
  | JFloat real
  | JStr string
  | JArr "json list"
  | JObj "(string \<times> json) list"

text \<open>\<open>len(plan)\<close>: defined on strings, lists and dicts; \<open>TypeError\<close> on the rest.\<close>

definition py_len :: "json \<Rightarrow> nat option" where
  "py_len v =
     (case v of
        JStr t \<Rightarrow> Some (length t)
      | JArr xs \<Rightarrow> Some (length xs)
      | JObj kvs \<Rightarrow> Some (length kvs)
      | _ \<Rightarrow> None)"

text \<open>The prompt of \<open>_create_test_plan\<close>, an f-string around the goal.\<close>

definition create_plan_prompt :: "string \<Rightarrow> string" where
  "create_plan_prompt goal =
     ''\<newline>'' @
     ''        Create a detailed test plan for the following goal: '' @ goal @
     ''\<newline>'' @
     ''        \<newline>'' @
     ''        The plan should be a JSON list of steps, where each step has:\<newline>'' @
     ''        - action: The type of action (tap, scroll, type, wait)\<newline>'' @
     ''        - target: Description of the UI element to interact with\<newline>'' @
     ''        - verification: What to check after this step\<newline>'' @
     ''        - fallback: What to do if this step fails\<newline>'' @
     ''        \<newline>'' @
     ''        Example format:\<newline>'' @
     ''        [\<newline>'' @
     ''            {\<newline>'' @
     ''                \"action\": \"tap\",\<newline>'' @
     ''                \"target\": \"Settings app icon\",\<newline>'' @
     ''                \"verification\": \"Settings screen is open\",\<newline>'' @
     ''                \"fallback\": \"Try opening from app drawer\"\<newline>'' @
     ''            }\<newline>'' @
     ''        ]\<newline>'' @
     ''        ''"

text \<open>\<open>PlannerAgent._get_default_wifi_test_plan\<close>\<close>

definition plan_step :: "string \<Rightarrow> string \<Rightarrow> string \<Rightarrow> string \<Rightarrow> json" where
  "plan_step act target verification fallback =
     JObj [(''action'', JStr act), (''target'', JStr target),
           (''verification'', JStr verification), (''fallback'', JStr fallback)]"

definition get_default_wifi_test_plan :: json where
  "get_default_wifi_test_plan =
     JArr [
       plan_step ''tap'' ''Settings app'' ''Settings main screen visible'' ''Open from app drawer'',
       plan_step ''scroll'' ''Settings list'' ''Network settings visible'' ''Search for WiFi'',
       plan_step ''tap'' ''WiFi or Network option'' ''WiFi settings screen open''
         ''Try 'Connections' first'',
       plan_step ''tap'' ''WiFi toggle switch'' ''WiFi is now ON'' ''Check if already on'',
       plan_step ''wait'' ''2 seconds'' ''WiFi networks appear'' ''Continue anyway'',
       plan_step ''tap'' ''WiFi toggle switch'' ''WiFi is now OFF'' ''Report as bug if stuck'']"

text \<open>
  \<open>PlannerAgent._create_test_plan\<close>. \<open>json_loads\<close> stands for Python's
  \<open>json.loads\<close> on the response text: the parsed value, or the exception it raises,
  which is \<open>JSONDecodeError\<close> for text that is not JSON, \<open>RecursionError\<close> for text
  nested too deeply and \<open>ValueError\<close> for an integer literal of too many digits. The
  clause \<open>except json.JSONDecodeError\<close> catches the first only; the others leave the
  function. The parsed value is returned as it is; only the log line evaluates
  \<open>len(plan)\<close> first, which raises \<open>TypeError\<close> outside the \<open>except\<close> clause's reach.
\<close>

definition create_test_plan ::
  "llm_client \<Rightarrow> (string \<Rightarrow> py_error + json) \<Rightarrow> string \<Rightarrow> string list
     \<Rightarrow> (py_error + json) \<times> string list" where
  "create_test_plan llm json_loads goal calls =
     (let prompt = create_plan_prompt goal;
          (response, calls') = generate llm prompt calls
      in case json_loads response of
           Inl err \<Rightarrow>
             if err = JSONDecodeError then (Inr get_default_wifi_test_plan, calls')
             else (Inl err, calls')
         | Inr plan \<Rightarrow>
             (case py_len plan of
                None \<Rightarrow> (Inl TypeError, calls')
              | Some n \<Rightarrow> (Inr plan, calls')))"

section \<open>Verifier: run-level decisions\<close>

text \<open>\<open>r.get('status', 'UNKNOWN')\<close>\<close>

definition status_or_unknown :: "verification \<Rightarrow> string" where
  "status_or_unknown r = (case v_status r of None \<Rightarrow> ''UNKNOWN'' | Some s \<Rightarrow> s)"

text \<open>\<open>result.get('confidence', 0)\<close>\<close>

definition confidence_or_zero :: "verification \<Rightarrow> real" where
  "confidence_or_zero r = (case v_confidence r of None \<Rightarrow> 0 | Some c \<Rightarrow> c)"

text \<open>\<open>result.get('needs_replanning', False)\<close>\<close>

definition replanning_flag :: "verification \<Rightarrow> bool" where
  "replanning_flag r = (case v_needs_replanning r of None \<Rightarrow> False | Some b \<Rightarrow> b)"

text \<open>\<open>VerifierAgent._needs_replanning\<close>: the loop returns at the first result that
  carries the flag or is a FAILED of confidence above 0.7.\<close>

fun needs_replanning :: "verification list \<Rightarrow> bool" where
  "needs_replanning [] = False"
| "needs_replanning (result # rest) =
     (if replanning_flag result then True
      else if v_status result = Some ''FAILED'' \<and> confidence_or_zero result > 7 / 10 then True
      else needs_replanning rest)"

text \<open>\<open>VerifierAgent._determine_overall_status\<close>\<close>

definition determine_overall_status :: "verification list \<Rightarrow> string" where
  "determine_overall_status verification_results =
     (let statuses = map status_or_unknown verification_results in
      if ''BUG_DETECTED'' \<in> set statuses then ''BUG_DETECTED''
      else if ''FAILED'' \<in> set statuses then ''FAILED''
      else if list_all (\<lambda>s. s = ''PASSED'') statuses then ''PASSED''
      else ''PARTIAL_PASS'')"

section \<open>Verifier: per-step classification\<close>

text \<open>The inner function \<open>extract(node)\<close> of \<open>_extract_all_text\<close>: the texts it
  appends, in the order of the appends.\<close>

fun extract_texts :: "ui_node \<Rightarrow> string list" where
  "extract_texts node =
     (if str_truthy (nd_text node) then [str_or_empty (nd_text node)] else [])
     @ (if str_truthy (nd_content_desc node) then [str_or_empty (nd_content_desc node)] else [])
     @ concat (map extract_texts (children_of node))"

declare extract_texts.simps [simp del]

text \<open>\<open>VerifierAgent._extract_all_text\<close>. A step result can carry \<open>None\<close> as its UI
  hierarchy; \<open>node.get\<close> then raises \<open>AttributeError\<close>.\<close>

definition extract_all_text :: "ui_node option \<Rightarrow> py_error + string" where
  "extract_all_text ui_tree =
     (case ui_tree of
        None \<Rightarrow> Inl AttributeError
      | Some node \<Rightarrow> Inr (py_join '' '' (extract_texts node)))"

text \<open>The three dicts \<open>_heuristic_verification\<close> returns.\<close>

definition passed_result :: "string \<Rightarrow> verification" where
  "passed_result reason =
     \<lparr> v_step_num = None, v_status = Some ''PASSED'', v_reason = Some reason,
       v_confidence = None, v_error = None, v_needs_replanning = None,
       v_current_state = None \<rparr>"

definition could_not_verify :: verification where
  "could_not_verify =
     \<lparr> v_step_num = None, v_status = Some ''FAILED'',
       v_reason = Some ''Could not verify expected outcome'',
       v_confidence = Some (3 / 10), v_error = None, v_needs_replanning = None,
       v_current_state = None \<rparr>"

text \<open>\<open>VerifierAgent._heuristic_verification\<close>\<close>

definition heuristic_verification :: "string \<Rightarrow> ui_node option \<Rightarrow> py_error + verification" where
  "heuristic_verification expected ui_tree =
     (let expected_lower = py_lower expected in
      case extract_all_text ui_tree of
        Inl err \<Rightarrow> Inl err
      | Inr all_text \<Rightarrow>
          (let ui_text = py_lower all_text in
           if py_in ''visible'' expected_lower \<or> py_in ''open'' expected_lower then
             (let key_words =
                    py_strip (py_replace ''open'' [] (py_replace ''visible'' [] expected_lower))
              in if list_ex (\<lambda>word. py_in word ui_text) (py_split key_words)
                 then Inr (passed_result ''Expected content found'')
                 else Inr could_not_verify)
           else if py_in ''on'' expected_lower \<or> py_in ''off'' expected_lower then
             (if py_in ''wifi is now on'' expected_lower \<and> py_in ''on'' ui_text
              then Inr (passed_result ''WiFi toggle is ON'')
              else if py_in ''wifi is now off'' expected_lower \<and> py_in ''off'' ui_text
              then Inr (passed_result ''WiFi toggle is OFF'')
              else Inr could_not_verify)
           else Inr could_not_verify))"

text \<open>The prompt of \<open>_verify_step_outcome\<close>, an f-string around the expectation and the
  first 1000 characters of \<open>str(ui_tree)\<close>.\<close>

definition verify_prompt :: "string \<Rightarrow> string \<Rightarrow> string" where
  "verify_prompt expected tree_text =
     ''\<newline>'' @
     ''        Verify if the following expectation was met:\<newline>'' @
     ''        Expected: '' @ expected @
     ''\<newline>'' @
     ''        \<newline>'' @
     ''        Current UI tree: '' @ tree_text @
     ''  # Truncate for LLM context\<newline>'' @
     ''        \<newline>'' @
     ''        Please analyze and return JSON:\<newline>'' @
     ''        {\<newline>'' @
     ''            \"status\": \"PASSED\" or \"FAILED\" or \"BUG_DETECTED\",\<newline>'' @
     ''            \"reason\": \"explanation\",\<newline>'' @
     ''            \"confidence\": 0.0 to 1.0,\<newline>'' @
     ''            \"bug_description\": \"if bug detected, describe it\"\<newline>'' @
     ''        }\<newline>'' @
     ''        ''"

text \<open>
  What the verifier takes from outside: the language-model client, Python's \<open>str\<close> of
  a UI hierarchy, and the outcome of the \<open>try\<close> block around \<open>json.loads(response)\<close>,
  \<open>None\<close> when the block raises. The module does not import \<open>json\<close>, so as shipped
  the block raises \<open>NameError\<close> on every response and \<open>ve_loads\<close> is constantly
  \<open>None\<close>; the results below hold for every \<open>ve_loads\<close>.
\<close>

record verifier_env =
  ve_llm :: llm_client
  ve_str :: "ui_node option \<Rightarrow> string"
  ve_loads :: "string \<Rightarrow> verification option"

text \<open>\<open>VerifierAgent._verify_step_outcome\<close>: one call of the client, then the parsed
  answer, or the heuristic in the bare \<open>except\<close>.\<close>

definition verify_step_outcome ::
  "verifier_env \<Rightarrow> string \<Rightarrow> ui_node option \<Rightarrow> pixels option \<Rightarrow> string list
     \<Rightarrow> (py_error + verification) \<times> string list" where
  "verify_step_outcome V expected ui_tree screenshot calls =
     (let prompt = verify_prompt expected (take 1000 (ve_str V ui_tree));
          (response, calls') = generate (ve_llm V) prompt calls
      in case ve_loads V response of
           Some verification \<Rightarrow> (Inr verification, calls')
         | None \<Rightarrow> (heuristic_verification expected ui_tree, calls'))"

text \<open>\<open>result['details'].get('error', 'Unknown error')\<close>\<close>

definition error_of :: "details \<Rightarrow> string" where
  "error_of d = (case d of ErrorDetails e \<Rightarrow> e | _ \<Rightarrow> ''Unknown error'')"

text \<open>The body of the loop of \<open>_verify_results\<close> for step number \<open>i\<close>.
  \<open>step['verification']\<close> raises \<open>KeyError\<close> on a step without the key.\<close>

definition verify_step ::
  "verifier_env \<Rightarrow> nat \<Rightarrow> step \<Rightarrow> exec_result \<Rightarrow> string list
     \<Rightarrow> (py_error + verification) \<times> string list" where
  "verify_step V i step result calls =
     (if \<not> r_success result then
        (Inr \<lparr> v_step_num = Some i, v_status = Some ''FAILED'', v_reason = None,
               v_confidence = None, v_error = Some (error_of (r_details result)),
               v_needs_replanning = Some True,
               v_current_state = Some (r_ui_hierarchy result) \<rparr>, calls)
      else
        (case s_verification step of
           None \<Rightarrow> (Inl KeyError, calls)
         | Some expected \<Rightarrow>
             (case verify_step_outcome V expected (r_ui_hierarchy result)
                     (r_screenshot result) calls of
                (Inl err, calls') \<Rightarrow> (Inl err, calls')
              | (Inr verification, calls') \<Rightarrow>
                  (Inr (verification\<lparr> v_step_num := Some i,
                          v_current_state := Some (r_ui_hierarchy result) \<rparr>), calls'))))"

text \<open>The loop \<open>for i, (step, result) in enumerate(zip(plan, results))\<close>.\<close>

fun verify_loop ::
  "verifier_env \<Rightarrow> nat \<Rightarrow> (step \<times> exec_result) list \<Rightarrow> string list
     \<Rightarrow> (py_error + verification list) \<times> string list" where
  "verify_loop V i [] calls = (Inr [], calls)"
| "verify_loop V i ((step, result) # rest) calls =
     (case verify_step V i step result calls of
        (Inl err, calls') \<Rightarrow> (Inl err, calls')
      | (Inr verification, calls') \<Rightarrow>
          (case verify_loop V (i + 1) rest calls' of
             (Inl err, calls'') \<Rightarrow> (Inl err, calls'')
           | (Inr verification_results, calls'') \<Rightarrow>
               (Inr (verification # verification_results), calls'')))"

text \<open>\<open>VerifierAgent._verify_results\<close>\<close>

definition verify_results ::
  "verifier_env \<Rightarrow> step list \<Rightarrow> exec_result list \<Rightarrow> string list
     \<Rightarrow> (py_error + verification list) \<times> string list" where
  "verify_results V plan results calls = verify_loop V 0 (zip plan results) calls"

section \<open>Orchestrator loop (\<open>tests/test_wifi_settings.py\<close>)\<close>

text \<open>\<open>AgentMessage\<close> (\<open>agents/base_agent.py\<close>). The content dict is opaque to the
  loop.\<close>

record 'c agent_message =
  m_sender :: string
  m_recipient :: string
  m_message_type :: string
  m_content :: 'c
  m_timestamp :: real

text \<open>
  The four agents are collaborators of the loop: \<open>process\<close> takes a message and the
  state of the system (agents, environment, logger) and returns a message, or \<open>None\<close>
  when no branch of \<open>process\<close> returns, or raises.
\<close>

type_synonym ('c, 's) process =
  "'c agent_message \<Rightarrow> 's \<Rightarrow> py_error + ('c agent_message option \<times> 's)"

record ('c, 's) agents =
  planner_process :: "('c, 's) process"
  executor_process :: "('c, 's) process"
  verifier_process :: "('c, 's) process"
  supervisor_process :: "('c, 's) process"

text \<open>What \<open>run_test\<close> prints and which collaborators it calls, in order: the
  \<open>print\<close> lines, \<open>logger.log_step(agent, action, ...)\<close>, the screenshot saved as
  \<open>step_<iteration>\<close>, and \<open>_handle_final_report(content)\<close>.\<close>

datatype 'c event =
    PrintStartingTest string
  | LogStep string string
  | PrintIteration nat string
  | PrintTestCompleted
  | HandleFinalReport 'c
  | PrintUnknownRecipient string
  | SaveScreenshot nat
  | PrintTestExecutionFinished

text \<open>How a run of the loop ended: the value of \<open>iteration\<close>, the events so far, the
  state, and the exception that ended it, if any.\<close>

record ('c, 's) run_result =
  rr_iterations :: nat
  rr_events :: "'c event list"
  rr_state :: 's
  rr_raised :: "py_error option"

text \<open>The first four branches of the \<open>if\<close> chain on the recipient; \<open>None\<close> for a
  recipient that is no agent.\<close>

definition route ::
  "('c, 's) agents \<Rightarrow> 'c agent_message \<Rightarrow> 's
     \<Rightarrow> (py_error + ('c agent_message option \<times> 's)) option" where
  "route A current_message s =
     (if m_recipient current_message = ''PlannerAgent''
        then Some (planner_process A current_message s)
      else if m_recipient current_message = ''ExecutorAgent''
        then Some (executor_process A current_message s)
      else if m_recipient current_message = ''VerifierAgent''
        then Some (verifier_process A current_message s)
      else if m_recipient current_message = ''SupervisorAgent''
        then Some (supervisor_process A current_message s)
      else None)"

text \<open>
  The \<open>while iteration < max_iterations\<close> loop of \<open>run_test\<close>. \<open>current_message\<close> is
  \<open>None\<close> after an agent returned nothing, and the next iteration raises
  \<open>AttributeError\<close> on \<open>current_message.message_type\<close>. \<open>response\<close> is \<open>None\<close> while
  the variable is unbound. The \<open>System\<close> branch reads \<open>response.content\<close> and breaks,
  an unknown recipient breaks, and every other iteration logs the step, saves a
  screenshot after the executor, and continues with the response.
\<close>

function run_loop ::
  "('c, 's) agents \<Rightarrow> nat \<Rightarrow> nat \<Rightarrow> 'c agent_message option \<Rightarrow> 'c agent_message option
     \<Rightarrow> 's \<Rightarrow> 'c event list \<Rightarrow> ('c, 's) run_result" where
  "run_loop A max_iterations iteration current_message response s out =
     (if iteration < max_iterations then
        (case current_message of
           None \<Rightarrow>
             \<lparr> rr_iterations = iteration + 1, rr_events = out, rr_state = s,
               rr_raised = Some AttributeError \<rparr>
         | Some msg \<Rightarrow>
             (let out1 = out @ [PrintIteration (iteration + 1) (m_message_type msg)] in
              case route A msg s of
                Some (Inl err) \<Rightarrow>
                  \<lparr> rr_iterations = iteration + 1, rr_events = out1, rr_state = s,
                    rr_raised = Some err \<rparr>
              | Some (Inr (response', s')) \<Rightarrow>
                  run_loop A max_iterations (iteration + 1) response' response' s'
                    (out1 @ [LogStep (m_recipient msg) (m_message_type msg)]
                       @ (if m_recipient msg = ''ExecutorAgent''
                          then [SaveScreenshot (iteration + 1)] else []))
              | None \<Rightarrow>
                  if m_recipient msg = ''System'' then
                    (case response of
                       None \<Rightarrow>
                         \<lparr> rr_iterations = iteration + 1,
                           rr_events = out1 @ [PrintTestCompleted], rr_state = s,
                           rr_raised = Some UnboundLocalError \<rparr>
                     | Some r \<Rightarrow>
                         \<lparr> rr_iterations = iteration + 1,
                           rr_events = out1 @ [PrintTestCompleted, HandleFinalReport (m_content r)],
                           rr_state = s, rr_raised = None \<rparr>)
                  else
                    \<lparr> rr_iterations = iteration + 1,
                      rr_events = out1 @ [PrintUnknownRecipient (m_recipient msg)],
                      rr_state = s, rr_raised = None \<rparr>))
      else \<lparr> rr_iterations = iteration, rr_events = out, rr_state = s, rr_raised = None \<rparr>)"
  by pat_completeness auto
termination
  by (relation "measure (\<lambda>(A, max_iterations, iteration, rest). max_iterations - iteration)") auto

declare run_loop.simps [simp del]

text \<open>
  \<open>MultiAgentQASystem.run_test\<close>: the opening line, the initial \<open>create_plan\<close>
  message for the planner, the loop with \<open>max_iterations = 10\<close>, and the closing line,
  which every exit of the loop reaches. The function has no \<open>return\<close> statement: it
  returns \<open>None\<close> whichever way the loop ended. \<open>goal_content\<close> builds the content
  dict \<open>{"goal": test_goal}\<close>, \<open>now\<close> is the reading of \<open>time.time()\<close>.
\<close>

definition run_test ::
  "('c, 's) agents \<Rightarrow> (string \<Rightarrow> 'c) \<Rightarrow> real \<Rightarrow> string \<Rightarrow> 's \<Rightarrow> ('c, 's) run_result" where
  "run_test A goal_content now test_goal s =
     (let initial_message =
            \<lparr> m_sender = ''System'', m_recipient = ''PlannerAgent'',
              m_message_type = ''create_plan'', m_content = goal_content test_goal,
              m_timestamp = now \<rparr>;
          max_iterations = 10;
          r = run_loop A max_iterations 0 (Some initial_message) None s
                [PrintStartingTest test_goal, LogStep ''System'' ''test_start'']
      in if rr_raised r = None
         then r\<lparr> rr_events := rr_events r @ [PrintTestExecutionFinished] \<rparr>
         else r)"

section \<open>Reference definitions and example inputs\<close>

text \<open>
  The flattening in the words of the specification, to compare \<open>parse_ui_tree\<close>
  with: \<open>preorder\<close> lists the nodes of a tree depth-first, parents before children
  and children in order, each with its depth; \<open>identifiable_preorder\<close> keeps the
  elements that have a text, a content description or a resource id.
\<close>

fun preorder :: "int \<Rightarrow> ui_node \<Rightarrow> (int \<times> ui_node) list" where
  "preorder depth node =
     (depth, node) # concat (map (preorder (depth + 1)) (children_of node))"

declare preorder.simps [simp del]

definition identifiable_preorder :: "ui_node \<Rightarrow> element list" where
  "identifiable_preorder tree =
     filter identifiable (map (\<lambda>(d, n). element_of d n) (preorder 0 tree))"

text \<open>A screen with the elements Settings, WiFi and a Toggle with bounds, and a chain
  of containers that puts one labelled element at depth 11.\<close>

definition leaf :: "string \<Rightarrow> ui_node" where
  "leaf label = UINode None (Some label) None None None None None None"

definition box :: "ui_node list \<Rightarrow> ui_node" where
  "box children = UINode None None None None None None None (Some children)"

definition toggle :: ui_node where
  "toggle = UINode None (Some ''Toggle'') None None (Some [300, 100, 400, 150]) None None None"

definition wifi_screen :: ui_node where
  "wifi_screen = box [leaf ''Settings'', leaf ''WiFi'', toggle]"

fun nested :: "nat \<Rightarrow> ui_node \<Rightarrow> ui_node" where
  "nested 0 node = node"
| "nested (Suc k) node = box [nested k node]"

definition deep_chain :: ui_node where
  "deep_chain = nested 11 (leaf ''deep'')"

text \<open>An environment that always shows \<open>wifi_screen\<close> and whose state is the list of
  the actions it was given.\<close>

definition wifi_observation :: observation where
  "wifi_observation =
     \<lparr> o_pixels = None, o_ui_tree = Some wifi_screen, o_screen_height = None,
       o_screen_width = None \<rparr>"

definition recording_env :: "action list android_env" where
  "recording_env =
     \<lparr> env_observe = (\<lambda>env. wifi_observation),
       env_step = (\<lambda>a env. env @ [a]),
       py_float = (\<lambda>word. if word = ''2'' then Some 2 else None) \<rparr>"

text \<open>A plan of four steps on that screen: a scroll, a tap on a label the screen does
  not show, and two more steps; none declares a fallback. The executor state after the
  scroll, and the results of the first two steps.\<close>

definition plain_step :: "string \<Rightarrow> string \<Rightarrow> step" where
  "plain_step act target =
     \<lparr> s_action = Some act, s_target = Some target, s_text = None,
       s_verification = None, s_fallback = None \<rparr>"

definition four_step_plan :: "step list" where
  "four_step_plan =
     [plain_step ''scroll'' ''Settings list'', plain_step ''tap'' ''Bluetooth'',
      plain_step ''tap'' ''Toggle'', plain_step ''wait'' ''2 seconds'']"

definition initial_state :: "action list executor_state" where
  "initial_state = \<lparr> ex_env = [], ex_current_observation = None, ex_slept = [] \<rparr>"

definition after_scroll :: "action list executor_state" where
  "after_scroll =
     \<lparr> ex_env = [Swipe (540, 1440) (540, 480) 500],
       ex_current_observation = Some wifi_observation, ex_slept = [] \<rparr>"

definition scroll_result :: exec_result where
  "scroll_result =
     \<lparr> r_step = plain_step ''scroll'' ''Settings list'', r_success = True,
       r_details = Scrolled ''down'' 960, r_screenshot = None,
       r_ui_hierarchy = Some wifi_screen \<rparr>"

definition failed_tap_result :: exec_result where
  "failed_tap_result =
     \<lparr> r_step = plain_step ''tap'' ''Bluetooth'', r_success = False,
       r_details = ErrorDetails ''Could not find element: Bluetooth'', r_screenshot = None,
       r_ui_hierarchy = Some wifi_screen \<rparr>"

text \<open>Steps with an expectation, a verifier whose client never answers in JSON, and a
  plan of two such steps.\<close>

definition checked_step :: "string \<Rightarrow> string \<Rightarrow> string \<Rightarrow> step" where
  "checked_step act target verification =
     \<lparr> s_action = Some act, s_target = Some target, s_text = None,
       s_verification = Some verification, s_fallback = None \<rparr>"

definition plain_verifier :: verifier_env where
  "plain_verifier =
     \<lparr> ve_llm = (\<lambda>calls prompt. ''I cannot tell''),
       ve_str = (\<lambda>tree. ''{}''),
       ve_loads = (\<lambda>response. None) \<rparr>"

definition two_checked_steps :: "step list" where
  "two_checked_steps =
     [checked_step ''scroll'' ''Settings list'' ''Network settings visible'',
      checked_step ''tap'' ''Bluetooth'' ''Bluetooth screen open'']"

text \<open>
  The requirement of the specification on a plan: a JSON list with at least one step,
  every step a dict whose \<open>target\<close> and \<open>verification\<close> (the expected outcome) are
  non-empty strings.
\<close>

definition step_field :: "string \<Rightarrow> json \<Rightarrow> string option" where
  "step_field key st =
     (case st of
        JObj kvs \<Rightarrow> (case map_of kvs key of Some (JStr v) \<Rightarrow> Some v | _ \<Rightarrow> None)
      | _ \<Rightarrow> None)"

definition well_formed_plan :: "json \<Rightarrow> bool" where
  "well_formed_plan plan =
     (case plan of
        JArr steps \<Rightarrow>
          steps \<noteq> []
          \<and> list_all (\<lambda>st. str_truthy (step_field ''target'' st)
                            \<and> str_truthy (step_field ''verification'' st)) steps
      | _ \<Rightarrow> False)"

text \<open>Two clients, one answering with the JSON text of the empty list and one answering
  in prose, and a stand-in for \<open>json.loads\<close> that parses the text \<open>[]\<close> to the empty
  list and rejects every other text.\<close>

definition empty_list_llm :: llm_client where
  "empty_list_llm = (\<lambda>calls prompt. ''[]'')"

definition prose_llm :: llm_client where
  "prose_llm = (\<lambda>calls prompt. ''Sure, here is a plan.'')"

definition loads_empty_list :: "string \<Rightarrow> py_error + json" where
  "loads_empty_list response =
     (if response = ''[]'' then Inr (JArr []) else Inl JSONDecodeError)"

text \<open>
  Vocabulary for the orchestrator loop: the events of an iteration that continues, and
  the events of the two \<open>break\<close> branches, which are printed exactly when a message
  reaches \<open>System\<close> or a recipient that is no agent.
\<close>

definition loop_line :: "'c event \<Rightarrow> bool" where
  "loop_line e =
     (case e of
        PrintIteration k t \<Rightarrow> True
      | LogStep a t \<Rightarrow> True
      | SaveScreenshot k \<Rightarrow> True
      | _ \<Rightarrow> False)"

definition break_line :: "'c event \<Rightarrow> bool" where
  "break_line e =
     (case e of
        PrintTestCompleted \<Rightarrow> True
      | PrintUnknownRecipient r \<Rightarrow> True
      | _ \<Rightarrow> False)"

text \<open>Agents that answer with a fixed message: a set that cycles planner, executor,
  verifier, planner without end, and a set that passes the test on to the supervisor
  and the final report. Their messages carry no content.\<close>

definition no_content :: "string \<Rightarrow> unit" where
  "no_content goal = ()"

definition reply :: "string \<Rightarrow> string \<Rightarrow> string \<Rightarrow> (unit, unit) process" where
  "reply sender recipient message_type =
     (\<lambda>msg s. Inr (Some \<lparr> m_sender = sender, m_recipient = recipient,
                            m_message_type = message_type, m_content = (),
                            m_timestamp = 0 \<rparr>, s))"

definition cyclic_agents :: "(unit, unit) agents" where
  "cyclic_agents =
     \<lparr> planner_process = reply ''PlannerAgent'' ''ExecutorAgent'' ''execute_plan'',
       executor_process = reply ''ExecutorAgent'' ''VerifierAgent'' ''verify_execution'',
       verifier_process = reply ''VerifierAgent'' ''PlannerAgent'' ''replan_needed'',
       supervisor_process = reply ''SupervisorAgent'' ''PlannerAgent'' ''create_plan'' \<rparr>"

definition passing_agents :: "(unit, unit) agents" where
  "passing_agents =
     \<lparr> planner_process = reply ''PlannerAgent'' ''ExecutorAgent'' ''execute_plan'',
       executor_process = reply ''ExecutorAgent'' ''VerifierAgent'' ''verify_execution'',
       verifier_process = reply ''VerifierAgent'' ''SupervisorAgent'' ''test_completed'',
       supervisor_process = reply ''SupervisorAgent'' ''System'' ''test_report'' \<rparr>"

text \<open>Agents that dispatch on the message type as the repository's \<open>process\<close> methods
  do, returning nothing for a type they do not handle, with a verifier that asks for
  replanning after every execution.\<close>

definition answer :: "string list \<Rightarrow> string \<Rightarrow> string \<Rightarrow> string \<Rightarrow> (unit, unit) process" where
  "answer handled sender recipient message_type =
     (\<lambda>msg s.
        if m_message_type msg \<in> set handled
        then Inr (Some \<lparr> m_sender = sender, m_recipient = recipient,
                          m_message_type = message_type, m_content = (),
                          m_timestamp = 0 \<rparr>, s)
        else Inr (None, s))"

definition replanning_agents :: "(unit, unit) agents" where
  "replanning_agents =
     \<lparr> planner_process =
         answer [''create_plan'', ''replan_needed''] ''PlannerAgent'' ''ExecutorAgent''
           ''execute_plan'',
       executor_process =
         answer [''execute_plan''] ''ExecutorAgent'' ''VerifierAgent'' ''verify_execution'',
       verifier_process =
         answer [''verify_execution''] ''VerifierAgent'' ''PlannerAgent'' ''replan_needed'',
       supervisor_process =
         answer [''test_completed''] ''SupervisorAgent'' ''System'' ''test_report'' \<rparr>"

section \<open>Properties\<close>

text \<open>
  C10. With no verification result at all, the overall status is PASSED: neither
  membership test finds anything and the all-PASSED test holds of the empty list.
\<close>

theorem overall_status_empty: "determine_overall_status [] = ''PASSED''"
  by (simp add: determine_overall_status_def)

subsection \<open>The overall status of a run\<close>

lemma status_membership:
  "(s \<in> set (map status_or_unknown rs)) = (\<exists>r\<in>set rs. status_or_unknown r = s)"
  by auto

text \<open>
  C1. The overall status is decided by precedence over the statuses of the results,
  where a result without a status counts as UNKNOWN: BUG_DETECTED if any result has
  it, else FAILED if any result has it, else PASSED if every result is PASSED, else
  PARTIAL_PASS. Hence turning any one result of an all-PASSED run into BUG_DETECTED
  makes the run BUG_DETECTED, and two runs with the same multiset of statuses have the
  same overall status.
\<close>

theorem overall_status_fold:
  "determine_overall_status rs =
     (if (\<exists>r\<in>set rs. status_or_unknown r = ''BUG_DETECTED'') then ''BUG_DETECTED''
      else if (\<exists>r\<in>set rs. status_or_unknown r = ''FAILED'') then ''FAILED''
      else if (\<forall>r\<in>set rs. status_or_unknown r = ''PASSED'') then ''PASSED''
      else ''PARTIAL_PASS'')
   \<and> (\<forall>i. i < length rs \<and> (\<forall>r\<in>set rs. v_status r = Some ''PASSED'') \<longrightarrow>
          determine_overall_status (rs[i := (rs ! i)\<lparr>v_status := Some ''BUG_DETECTED''\<rparr>])
            = ''BUG_DETECTED'')
   \<and> (\<forall>rs'. mset (map status_or_unknown rs') = mset (map status_or_unknown rs) \<longrightarrow>
          determine_overall_status rs' = determine_overall_status rs)"
proof (intro conjI allI impI)
  show "determine_overall_status rs =
     (if (\<exists>r\<in>set rs. status_or_unknown r = ''BUG_DETECTED'') then ''BUG_DETECTED''
      else if (\<exists>r\<in>set rs. status_or_unknown r = ''FAILED'') then ''FAILED''
      else if (\<forall>r\<in>set rs. status_or_unknown r = ''PASSED'') then ''PASSED''
      else ''PARTIAL_PASS'')"
    unfolding determine_overall_status_def Let_def list_all_iff status_membership
    by auto
next
  fix i
  assume a: "i < length rs \<and> (\<forall>r\<in>set rs. v_status r = Some ''PASSED'')"
  let ?b = "(rs ! i)\<lparr>v_status := Some ''BUG_DETECTED''\<rparr>"
  have "?b \<in> set (rs[i := ?b])" using a by (simp add: set_update_memI)
  moreover have "status_or_unknown ?b = ''BUG_DETECTED''" by (simp add: status_or_unknown_def)
  ultimately have "''BUG_DETECTED'' \<in> set (map status_or_unknown (rs[i := ?b]))"
    unfolding status_membership by blast
  then show "determine_overall_status (rs[i := ?b]) = ''BUG_DETECTED''"
    by (simp add: determine_overall_status_def)
next
  fix rs'
  assume "mset (map status_or_unknown rs') = mset (map status_or_unknown rs)"
  then have "set (map status_or_unknown rs') = set (map status_or_unknown rs)"
    by (rule mset_eq_setD)
  then show "determine_overall_status rs' = determine_overall_status rs"
    unfolding determine_overall_status_def Let_def list_all_iff by simp
qed

theorem overall_status_fold_witness:
  "determine_overall_status
     ([passed_result ''a'', passed_result ''b'']
        [1 := ([passed_result ''a'', passed_result ''b''] ! 1)\<lparr>v_status := Some ''BUG_DETECTED''\<rparr>])
     = ''BUG_DETECTED''
   \<and> determine_overall_status [passed_result ''a'', could_not_verify]
     = determine_overall_status [could_not_verify, passed_result ''a'']
   \<and> determine_overall_status [passed_result ''a'', passed_result ''b''] = ''PASSED''"
proof -
  let ?rs = "[passed_result ''a'', passed_result ''b'']"
  have pre: "1 < length ?rs \<and> (\<forall>r\<in>set ?rs. v_status r = Some ''PASSED'')"
    by (simp add: passed_result_def)
  have perm: "mset (map status_or_unknown [passed_result ''a'', could_not_verify])
      = mset (map status_or_unknown [could_not_verify, passed_result ''a''])"
    by simp
  have allp: "\<forall>r\<in>set ?rs. status_or_unknown r = ''PASSED''"
    by (simp add: passed_result_def status_or_unknown_def)
  from overall_status_fold [of ?rs] pre
  have "determine_overall_status (?rs[1 := (?rs ! 1)\<lparr>v_status := Some ''BUG_DETECTED''\<rparr>])
          = ''BUG_DETECTED''"
    by blast
  moreover from overall_status_fold [of "[could_not_verify, passed_result ''a'']"] perm
  have "determine_overall_status [passed_result ''a'', could_not_verify]
     = determine_overall_status [could_not_verify, passed_result ''a'']"
    by blast
  moreover from overall_status_fold [of ?rs] allp
  have "determine_overall_status ?rs = ''PASSED''"
    by (simp add: passed_result_def status_or_unknown_def)
  ultimately show ?thesis by blast
qed

subsection \<open>The replanning trigger\<close>

lemma needs_replanning_iff:
  "needs_replanning rs \<longleftrightarrow>
     (\<exists>r\<in>set rs. replanning_flag r
                 \<or> (v_status r = Some ''FAILED'' \<and> confidence_or_zero r > 7 / 10))"
  by (induction rs) auto

text \<open>
  C4. A run needs replanning exactly when some result carries
  \<open>needs_replanning = True\<close> or some result is FAILED with a confidence above 0.7,
  an absent confidence counting as 0. A FAILED result of confidence at most 0.7 that
  does not carry the flag, such as the heuristic's 0.3, does not trigger replanning by
  itself.
\<close>

theorem needs_replanning_rule:
  "(needs_replanning rs \<longleftrightarrow>
      (\<exists>r\<in>set rs. v_needs_replanning r = Some True
                  \<or> (v_status r = Some ''FAILED'' \<and> confidence_or_zero r > 7 / 10)))
   \<and> (\<forall>r. v_status r = Some ''FAILED'' \<and> confidence_or_zero r \<le> 7 / 10
            \<and> v_needs_replanning r \<noteq> Some True \<longrightarrow> \<not> needs_replanning [r])"
proof -
  have flag: "replanning_flag r \<longleftrightarrow> v_needs_replanning r = Some True" for r
    by (cases "v_needs_replanning r") (auto simp: replanning_flag_def)
  show ?thesis by (auto simp: needs_replanning_iff flag)
qed

theorem needs_replanning_rule_witness:
  "\<not> needs_replanning [could_not_verify]
   \<and> needs_replanning [could_not_verify, could_not_verify\<lparr>v_confidence := Some (9 / 10)\<rparr>]
   \<and> needs_replanning
       [could_not_verify\<lparr>v_status := Some ''PASSED'', v_needs_replanning := Some True\<rparr>]"
  using needs_replanning_rule [of "[could_not_verify]"]
    needs_replanning_rule
      [of "[could_not_verify, could_not_verify\<lparr>v_confidence := Some (9 / 10)\<rparr>]"]
    needs_replanning_rule
      [of "[could_not_verify\<lparr>v_status := Some ''PASSED'', v_needs_replanning := Some True\<rparr>]"]
  by (simp add: could_not_verify_def confidence_or_zero_def)

subsection \<open>The tap coordinate\<close>

lemma bounds_truthy: "nd_bounds element = Some b \<Longrightarrow> dict_truthy element"
  by (auto simp: dict_truthy_def empty_dict_def)

lemma find_toggle: "find_ui_element ''Toggle'' wifi_screen = Some toggle"
  by code_simp

text \<open>
  C8. When the search for the target finds an element whose bounds are
  \<open>[l, t, r, b]\<close> with \<open>l < r\<close> and \<open>t < b\<close>, \<open>_execute_tap\<close> touches the point
  \<open>((l + r) div 2, (t + b) div 2)\<close>, reports it as \<open>tapped_at\<close> and succeeds; the
  second executor's \<open>_get_element_center\<close> returns the same point. The division is
  the floor of the exact midpoint.
\<close>

theorem tap_midpoint:
  assumes "o_ui_tree observation = Some tree"
    and "find_ui_element target tree = Some element"
    and "nd_bounds element = Some [l, t, r, b]"
    and "l < r" and "t < b"
  shows "execute_tap E target observation env =
           (env_step E (Touch ((l + r) div 2, (t + b) div 2)) env, True,
            TappedAt ((l + r) div 2, (t + b) div 2) (str_or_empty (nd_text element)))
       \<and> get_element_center element = ((l + r) div 2, (t + b) div 2)
       \<and> (l + r) div 2 = \<lfloor>(real_of_int l + real_of_int r) / 2\<rfloor>
       \<and> (t + b) div 2 = \<lfloor>(real_of_int t + real_of_int b) / 2\<rfloor>"
proof -
  have truthy: "dict_truthy element" using assms(3) by (rule bounds_truthy)
  have tap: "execute_tap E target observation env =
           (env_step E (Touch ((l + r) div 2, (t + b) div 2)) env, True,
            TappedAt ((l + r) div 2, (t + b) div 2) (str_or_empty (nd_text element)))"
    using assms(1-3) truthy by (simp add: execute_tap_def Let_def)
  have center: "get_element_center element = ((l + r) div 2, (t + b) div 2)"
    using assms(3) by (simp add: get_element_center_def Let_def)
  have fl: "(x + y) div 2 = \<lfloor>(real_of_int x + real_of_int y) / 2\<rfloor>" for x y :: int
    using floor_divide_of_int_eq [of "x + y" 2, where ?'a = real] by simp
  from tap center fl [of l r] fl [of t b] show ?thesis by blast
qed

theorem tap_midpoint_witness:
  "execute_tap recording_env ''Toggle'' wifi_observation [] =
     ([Touch (350, 125)], True, TappedAt (350, 125) ''Toggle'')
   \<and> get_element_center toggle = (350, 125)"
proof -
  have "o_ui_tree wifi_observation = Some wifi_screen" by (simp add: wifi_observation_def)
  moreover have "nd_bounds toggle = Some [300, 100, 400, 150]" by (simp add: toggle_def)
  moreover have "(300::int) < 400" "(100::int) < 150" by simp_all
  ultimately show ?thesis
    using tap_midpoint [of wifi_observation wifi_screen "''Toggle''" toggle 300 100 400 150
        recording_env "[]"] find_toggle
    by (simp add: recording_env_def toggle_def str_or_empty_def)
qed

subsection \<open>Flattening the UI tree\<close>

lemma preorder_depth_ge: "(d, n) \<in> set (preorder depth node) \<Longrightarrow> depth \<le> d"
proof (induction depth node arbitrary: d n rule: preorder.induct)
  case (1 depth node)
  from "1.prems" have "(d, n) = (depth, node) \<or>
      (\<exists>child\<in>set (children_of node). (d, n) \<in> set (preorder (depth + 1) child))"
    by (subst (asm) preorder.simps) auto
  then show ?case
  proof
    assume "(d, n) = (depth, node)"
    then show ?thesis by simp
  next
    assume "\<exists>child\<in>set (children_of node). (d, n) \<in> set (preorder (depth + 1) child)"
    then obtain child where "child \<in> set (children_of node)"
      and "(d, n) \<in> set (preorder (depth + 1) child)"
      by blast
    with "1.IH" have "depth + 1 \<le> d" by blast
    then show ?thesis by simp
  qed
qed

lemma traverse_preorder:
  "traverse max_depth node depth =
     map (\<lambda>(d, n). element_of d n)
       (filter (\<lambda>(d, n). d \<le> max_depth \<and> identifiable (element_of d n))
          (preorder depth node))"
proof (induction max_depth node depth rule: traverse.induct)
  case (1 max_depth node depth)
  show ?case
  proof (cases "depth > max_depth")
    case True
    then have "filter (\<lambda>(d, n). d \<le> max_depth \<and> identifiable (element_of d n))
        (preorder depth node) = []"
      by (auto simp: filter_empty_conv dest: preorder_depth_ge)
    with True show ?thesis by (simp add: traverse.simps)
  next
    case False
    have ih: "\<And>child. child \<in> set (children_of node) \<Longrightarrow>
        traverse max_depth child (depth + 1) =
          map (\<lambda>(d, n). element_of d n)
            (filter (\<lambda>(d, n). d \<le> max_depth \<and> identifiable (element_of d n))
               (preorder (depth + 1) child))"
      using "1.IH" False by simp
    have kids: "concat (map (\<lambda>child. traverse max_depth child (depth + 1)) (children_of node)) =
       map (\<lambda>(d, n). element_of d n)
         (filter (\<lambda>(d, n). d \<le> max_depth \<and> identifiable (element_of d n))
            (concat (map (preorder (depth + 1)) (children_of node))))"
      using ih
      by (induction "children_of node")
         (simp_all add: filter_concat map_concat comp_def cong: map_cong)
    show ?thesis
      using False
      by (subst traverse.simps, subst preorder.simps) (simp add: kids Let_def)
  qed
qed

text \<open>
  C9, as stated, fails on a tree deeper than the depth limit: with the default
  \<open>max_depth = 10\<close>, the labelled element at depth 11 of \<open>deep_chain\<close> is in the
  pre-order sequence and has a text, yet the flattened list is empty.
\<close>

theorem flattening_misses_deep_element:
  "parse_ui_tree deep_chain 10 = []
   \<and> identifiable_preorder deep_chain = [element_of 11 (leaf ''deep'')]
   \<and> identifiable (element_of 11 (leaf ''deep''))
   \<and> parse_ui_tree deep_chain 10 \<noteq> identifiable_preorder deep_chain"
  by code_simp

text \<open>
  C9, amended. Flattening produces the pre-order sequence of the elements at depth at
  most \<open>max_depth\<close> (the root has depth 0), without the elements whose text, content
  description and resource id are all empty; every other element of that depth range
  appears, in pre-order position. When no node lies deeper than \<open>max_depth\<close> this is
  the whole pre-order sequence of identifiable elements.
\<close>

theorem flattening_within_depth:
  "parse_ui_tree tree max_depth =
     filter identifiable
       (map (\<lambda>(d, n). element_of d n)
          (filter (\<lambda>(d, n). d \<le> max_depth) (preorder 0 tree)))
   \<and> ((\<forall>(d, n)\<in>set (preorder 0 tree). d \<le> max_depth) \<longrightarrow>
        parse_ui_tree tree max_depth = identifiable_preorder tree)"
proof -
  have eq: "parse_ui_tree tree max_depth =
     filter identifiable
       (map (\<lambda>(d, n). element_of d n)
          (filter (\<lambda>(d, n). d \<le> max_depth) (preorder 0 tree)))"
    unfolding parse_ui_tree_def traverse_preorder filter_map
    by (simp add: comp_def case_prod_unfold conj_commute)
  moreover have "parse_ui_tree tree max_depth = identifiable_preorder tree"
    if "\<forall>(d, n)\<in>set (preorder 0 tree). d \<le> max_depth"
  proof -
    from that have "filter (\<lambda>(d, n). d \<le> max_depth) (preorder 0 tree) = preorder 0 tree"
      by (auto simp: filter_id_conv)
    with eq show ?thesis by (simp add: identifiable_preorder_def)
  qed
  ultimately show ?thesis by blast
qed

lemma wifi_screen_preorder:
  "preorder 0 wifi_screen = [(0, wifi_screen), (1, leaf ''Settings''), (1, leaf ''WiFi''), (1, toggle)]"
  by code_simp

theorem flattening_within_depth_witness:
  "parse_ui_tree wifi_screen 10 =
     [element_of 1 (leaf ''Settings''), element_of 1 (leaf ''WiFi''), element_of 1 toggle]
   \<and> parse_ui_tree wifi_screen 10 = identifiable_preorder wifi_screen
   \<and> parse_ui_tree deep_chain 10 = []"
proof -
  have shallow: "\<forall>(d, n)\<in>set (preorder 0 wifi_screen). d \<le> 10"
    by (simp add: wifi_screen_preorder)
  have a: "parse_ui_tree wifi_screen 10 = identifiable_preorder wifi_screen"
    using flattening_within_depth [of wifi_screen 10] shallow by blast
  have b: "identifiable_preorder wifi_screen =
     [element_of 1 (leaf ''Settings''), element_of 1 (leaf ''WiFi''), element_of 1 toggle]"
    by code_simp
  have c: "filter identifiable
       (map (\<lambda>(d, n). element_of d n)
          (filter (\<lambda>(d, n). d \<le> 10) (preorder 0 deep_chain))) = []"
    by code_simp
  have d: "parse_ui_tree deep_chain 10 = []"
    using flattening_within_depth [of deep_chain 10] c by simp
  from a b d show ?thesis by simp
qed

subsection \<open>Plan execution stops at the first failure without fallback\<close>

lemma execute_step_records_step:
  "execute_step E st step = Inr (st', r) \<Longrightarrow> r_step r = step"
  by (auto simp: execute_step_def Let_def split: option.splits if_splits prod.splits list.splits)

lemma execute_plan_append:
  assumes "execute_plan E st pre = Inr (st1, rs1)"
    and "\<forall>r\<in>set rs1. r_success r \<or> str_truthy (s_fallback (r_step r))"
  shows "execute_plan E st (pre @ post) =
           (case execute_plan E st1 post of
              Inl err \<Rightarrow> Inl err
            | Inr (st2, rs2) \<Rightarrow> Inr (st2, rs1 @ rs2))
         \<and> map r_step rs1 = pre"
  using assms
proof (induction pre arbitrary: st rs1)
  case Nil
  then show ?case by (auto split: sum.splits)
next
  case (Cons s pre)
  from Cons.prems(1) obtain sta r where step: "execute_step E st s = Inr (sta, r)"
    by (auto split: sum.splits)
  have rs: "r_step r = s" using step by (rule execute_step_records_step)
  show ?case
  proof (cases "\<not> r_success r \<and> \<not> str_truthy (s_fallback s)")
    case True
    with Cons.prems(1) step have "rs1 = [r]" by simp
    with Cons.prems(2) True rs show ?thesis by simp
  next
    case False
    with Cons.prems(1) step obtain rest where
      rest: "execute_plan E sta pre = Inr (st1, rest)" and rs1: "rs1 = r # rest"
      by (auto split: sum.splits)
    from Cons.prems(2) rs1 have "\<forall>r\<in>set rest. r_success r \<or> str_truthy (s_fallback (r_step r))"
      by simp
    from Cons.IH [OF rest this] step False rs1 rs show ?thesis
      by (auto split: sum.splits)
  qed
qed

text \<open>
  C3. Let the steps \<open>pre\<close> run without an exception and without a stop, that is, each
  of them succeeds or has a fallback, and let the next step \<open>s\<close> fail with no fallback
  (absent, or the empty string, which Python counts as false). Then executing the plan
  \<open>pre @ s # post\<close> returns the results of \<open>pre\<close> followed by the result of \<open>s\<close>,
  one result per executed step and in plan order, with the state left by \<open>s\<close>; no step
  of \<open>post\<close> is executed or has a result. For a plan of four steps whose second step
  fails with no fallback, these are exactly two results.
\<close>

theorem execute_plan_stops_at_first_failure:
  assumes "execute_plan E st pre = Inr (st1, rs1)"
    and "\<forall>r\<in>set rs1. r_success r \<or> str_truthy (s_fallback (r_step r))"
    and "execute_step E st1 s = Inr (st2, r)"
    and "\<not> r_success r" and "\<not> str_truthy (s_fallback s)"
  shows "execute_plan E st (pre @ s # post) = Inr (st2, rs1 @ [r])
       \<and> map r_step (rs1 @ [r]) = pre @ [s]
       \<and> length (rs1 @ [r]) = length pre + 1"
proof -
  have "execute_plan E st1 (s # post) = Inr (st2, [r])"
    using assms(3-5) by simp
  with execute_plan_append [OF assms(1,2), of "s # post"]
  have "execute_plan E st (pre @ s # post) = Inr (st2, rs1 @ [r])" and pre: "map r_step rs1 = pre"
    by simp_all
  moreover have "r_step r = s" using assms(3) by (rule execute_step_records_step)
  moreover from pre have "length rs1 = length pre" by (metis length_map)
  ultimately show ?thesis by simp
qed

theorem execute_plan_stops_at_first_failure_witness:
  "execute_plan recording_env initial_state four_step_plan =
     Inr (after_scroll, [scroll_result, failed_tap_result])
   \<and> length four_step_plan = 4"
proof -
  have pre: "execute_plan recording_env initial_state [plain_step ''scroll'' ''Settings list'']
      = Inr (after_scroll, [scroll_result])"
    by code_simp
  have ok: "\<forall>r\<in>set [scroll_result]. r_success r \<or> str_truthy (s_fallback (r_step r))"
    by (simp add: scroll_result_def)
  have step: "execute_step recording_env after_scroll (plain_step ''tap'' ''Bluetooth'')
      = Inr (after_scroll, failed_tap_result)"
    by code_simp
  have failed: "\<not> r_success failed_tap_result" by (simp add: failed_tap_result_def)
  have nofb: "\<not> str_truthy (s_fallback (plain_step ''tap'' ''Bluetooth''))"
    by (simp add: plain_step_def str_truthy_def)
  from execute_plan_stops_at_first_failure [OF pre ok step failed nofb,
      of "[plain_step ''tap'' ''Toggle'', plain_step ''wait'' ''2 seconds'']"]
  show ?thesis by (simp add: four_step_plan_def)
qed

subsection \<open>The heuristic verifier\<close>

text \<open>
  C6, as stated, fails on every expectation the heuristic accepts: the dict it returns
  for PASSED has a status and a reason and no confidence. On the screen
  \<open>wifi_screen\<close> the expectation of the first step of the template plan is such a
  case.
\<close>

theorem heuristic_pass_without_confidence:
  "heuristic_verification ''Settings main screen visible'' (Some wifi_screen)
     = Inr (passed_result ''Expected content found'')
   \<and> v_status (passed_result ''Expected content found'') = Some ''PASSED''
   \<and> v_confidence (passed_result ''Expected content found'') = None"
  by code_simp

text \<open>
  C6, amended. For every expectation and UI tree the heuristic returns a result, which
  is either PASSED without a confidence or FAILED with confidence exactly 0.3; a
  confidence, where there is one, lies in [0, 1]. An expectation whose lower-cased text
  contains none of \<open>visible\<close>, \<open>open\<close>, \<open>on\<close>, \<open>off\<close> is FAILED with confidence
  0.3, never PASSED.
\<close>

theorem heuristic_outcomes:
  "\<exists>v. heuristic_verification expected (Some tree) = Inr v
     \<and> (v_status v = Some ''PASSED'' \<and> v_confidence v = None
        \<or> v_status v = Some ''FAILED'' \<and> v_confidence v = Some (3 / 10))
     \<and> (\<forall>c. v_confidence v = Some c \<longrightarrow> 0 \<le> c \<and> c \<le> 1)
     \<and> (\<not> py_in ''visible'' (py_lower expected) \<and> \<not> py_in ''open'' (py_lower expected)
          \<and> \<not> py_in ''on'' (py_lower expected) \<and> \<not> py_in ''off'' (py_lower expected)
        \<longrightarrow> v = could_not_verify \<and> v_status v = Some ''FAILED''
            \<and> v_confidence v = Some (3 / 10))"
  by (simp add: heuristic_verification_def extract_all_text_def Let_def
        passed_result_def could_not_verify_def)

theorem heuristic_outcomes_witness:
  "heuristic_verification ''WiFi networks appear'' (Some wifi_screen) = Inr could_not_verify
   \<and> v_status could_not_verify = Some ''FAILED''
   \<and> v_confidence could_not_verify = Some (3 / 10)"
proof -
  have none: "\<not> py_in ''visible'' (py_lower ''WiFi networks appear'')
      \<and> \<not> py_in ''open'' (py_lower ''WiFi networks appear'')
      \<and> \<not> py_in ''on'' (py_lower ''WiFi networks appear'')
      \<and> \<not> py_in ''off'' (py_lower ''WiFi networks appear'')"
    by code_simp
  from heuristic_outcomes [of "''WiFi networks appear''" wifi_screen] none
  show ?thesis by auto
qed

subsection \<open>Failed executions force replanning\<close>

lemma verify_step_failed:
  "\<not> r_success result \<Longrightarrow>
     verify_step V i step result calls =
       (Inr \<lparr> v_step_num = Some i, v_status = Some ''FAILED'', v_reason = None,
              v_confidence = None, v_error = Some (error_of (r_details result)),
              v_needs_replanning = Some True,
              v_current_state = Some (r_ui_hierarchy result) \<rparr>, calls)"
  by (simp add: verify_step_def)

lemma verify_step_outcome_calls:
  "verify_step_outcome V expected ui_tree screenshot calls = (res, calls') \<Longrightarrow>
     calls' = calls @ [verify_prompt expected (take 1000 (ve_str V ui_tree))]"
  by (auto simp: verify_step_outcome_def generate_def Let_def split: option.splits)

lemma verify_step_succeeded_calls:
  "r_success result \<Longrightarrow> verify_step V i step result calls = (Inr v, calls') \<Longrightarrow>
     length calls' = length calls + 1"
  by (auto simp: verify_step_def split: option.splits prod.splits sum.splits
      dest!: verify_step_outcome_calls)

lemma verify_loop_spec:
  "verify_loop V i pairs calls = (Inr vs, calls') \<Longrightarrow>
     length vs = length pairs
     \<and> (\<forall>k<length vs. \<not> r_success (snd (pairs ! k)) \<longrightarrow>
            v_status (vs ! k) = Some ''FAILED'' \<and> v_needs_replanning (vs ! k) = Some True
            \<and> v_step_num (vs ! k) = Some (i + k))
     \<and> length calls' = length calls + length (filter (\<lambda>p. r_success (snd p)) pairs)"
proof (induction pairs arbitrary: i calls vs)
  case Nil
  then show ?case by simp
next
  case (Cons p pairs)
  obtain step result where p: "p = (step, result)" by (cases p)
  from Cons.prems p obtain v calls1 rest where
    one: "verify_step V i step result calls = (Inr v, calls1)"
    and more: "verify_loop V (i + 1) pairs calls1 = (Inr rest, calls')"
    and vs: "vs = v # rest"
    by (auto split: prod.splits sum.splits)
  note ih = Cons.IH [OF more]
  have len: "length vs = length (p # pairs)" using ih vs by simp
  have calls_count: "length calls1 = length calls + (if r_success result then 1 else 0)"
  proof (cases "r_success result")
    case True
    with one show ?thesis by (simp add: verify_step_succeeded_calls)
  next
    case False
    with one show ?thesis by (simp add: verify_step_failed)
  qed
  have cls: "\<forall>k<length vs. \<not> r_success (snd ((p # pairs) ! k)) \<longrightarrow>
            v_status (vs ! k) = Some ''FAILED'' \<and> v_needs_replanning (vs ! k) = Some True
            \<and> v_step_num (vs ! k) = Some (i + k)"
  proof (intro allI impI)
    fix k assume k: "k < length vs" and f: "\<not> r_success (snd ((p # pairs) ! k))"
    show "v_status (vs ! k) = Some ''FAILED'' \<and> v_needs_replanning (vs ! k) = Some True
            \<and> v_step_num (vs ! k) = Some (i + k)"
    proof (cases k)
      case 0
      with f p have "\<not> r_success result" by simp
      with one have "v = \<lparr> v_step_num = Some i, v_status = Some ''FAILED'', v_reason = None,
              v_confidence = None, v_error = Some (error_of (r_details result)),
              v_needs_replanning = Some True,
              v_current_state = Some (r_ui_hierarchy result) \<rparr>"
        by (simp add: verify_step_failed)
      with 0 vs show ?thesis by simp
    next
      case (Suc j)
      with k vs have "j < length rest" by simp
      moreover from f Suc have "\<not> r_success (snd (pairs ! j))" by simp
      ultimately show ?thesis using ih Suc vs by simp
    qed
  qed
  from len cls calls_count ih p show ?case by simp
qed

lemma verify_loop_all_failed:
  "\<forall>p\<in>set pairs. \<not> r_success (snd p) \<Longrightarrow> \<exists>vs. verify_loop V i pairs calls = (Inr vs, calls)"
proof (induction pairs arbitrary: i)
  case Nil
  then show ?case by simp
next
  case (Cons p pairs)
  obtain step result where p: "p = (step, result)" by (cases p)
  with Cons.prems have "\<not> r_success result" by simp
  then have one: "\<exists>v. verify_step V i step result calls = (Inr v, calls)"
    by (simp add: verify_step_failed)
  from Cons.IH [of "i + 1"] Cons.prems obtain rest where
    "verify_loop V (i + 1) pairs calls = (Inr rest, calls)" by auto
  with one p show ?case by auto
qed

lemma successful_pairs:
  "length (filter (\<lambda>p. r_success (snd p)) (zip plan results))
     = length (filter r_success (take (length plan) results))"
proof -
  have "filter r_success (map snd (zip plan results))
      = map snd (filter (\<lambda>p. r_success (snd p)) (zip plan results))"
    by (simp add: filter_map comp_def)
  moreover have "map snd (zip plan results) = take (length plan) results"
    by (simp add: map_snd_zip_take min_def)
  ultimately show ?thesis by (metis length_map)
qed

text \<open>
  C5. A step result with \<open>success = False\<close> is classified FAILED with
  \<open>needs_replanning = True\<close>, whatever the step, the verifier's collaborators and the
  calls made so far, and the list of calls to the language-model client is unchanged:
  neither the client nor the heuristic is consulted. A run of \<open>_verify_results\<close> in
  which every result failed returns without any call. In every run that returns, there
  is one verification per zipped pair, each failed result is classified FAILED with the
  flag set and its own step number, and the client has been called exactly once per
  successful result.
\<close>

theorem failed_step_forces_replanning:
  "(\<not> r_success result \<longrightarrow>
      (\<exists>v. verify_step V i step result calls = (Inr v, calls)
         \<and> v_status v = Some ''FAILED'' \<and> v_needs_replanning v = Some True))
   \<and> ((\<forall>r\<in>set results. \<not> r_success r) \<longrightarrow>
        (\<exists>vs. verify_results V plan results calls = (Inr vs, calls)))
   \<and> (verify_results V plan results calls = (Inr vs, calls') \<longrightarrow>
        length vs = min (length plan) (length results)
        \<and> (\<forall>k<length vs. \<not> r_success (results ! k) \<longrightarrow>
              v_status (vs ! k) = Some ''FAILED'' \<and> v_needs_replanning (vs ! k) = Some True
              \<and> v_step_num (vs ! k) = Some k)
        \<and> length calls' = length calls + length (filter r_success (take (length plan) results)))"
proof (intro conjI impI)
  assume "\<not> r_success result"
  then show "\<exists>v. verify_step V i step result calls = (Inr v, calls)
         \<and> v_status v = Some ''FAILED'' \<and> v_needs_replanning v = Some True"
    by (simp add: verify_step_failed)
next
  assume "\<forall>r\<in>set results. \<not> r_success r"
  then have "\<forall>p\<in>set (zip plan results). \<not> r_success (snd p)"
    by (auto dest: set_zip_rightD)
  then show "\<exists>vs. verify_results V plan results calls = (Inr vs, calls)"
    unfolding verify_results_def by (rule verify_loop_all_failed)
next
  assume run: "verify_results V plan results calls = (Inr vs, calls')"
  then have loop: "verify_loop V 0 (zip plan results) calls = (Inr vs, calls')"
    by (simp add: verify_results_def)
  note spec = verify_loop_spec [OF loop]
  from spec show "length vs = min (length plan) (length results)" by simp
  from spec have len: "length vs = length (zip plan results)" by blast
  show "\<forall>k<length vs. \<not> r_success (results ! k) \<longrightarrow>
              v_status (vs ! k) = Some ''FAILED'' \<and> v_needs_replanning (vs ! k) = Some True
              \<and> v_step_num (vs ! k) = Some k"
  proof (intro allI impI)
    fix k assume k: "k < length vs" and f: "\<not> r_success (results ! k)"
    from k len have "snd (zip plan results ! k) = results ! k" by simp
    with spec k f show "v_status (vs ! k) = Some ''FAILED'' \<and> v_needs_replanning (vs ! k) = Some True
              \<and> v_step_num (vs ! k) = Some k"
      by simp
  qed
  from spec show "length calls' = length calls + length (filter r_success (take (length plan) results))"
    by (simp add: successful_pairs)
qed

theorem failed_step_forces_replanning_witness:
  "verify_results plain_verifier two_checked_steps [scroll_result, failed_tap_result] [] =
     (Inr [(passed_result ''Expected content found'')
             \<lparr> v_step_num := Some 0, v_current_state := Some (Some wifi_screen) \<rparr>,
           \<lparr> v_step_num = Some 1, v_status = Some ''FAILED'', v_reason = None,
             v_confidence = None,
             v_error = Some ''Could not find element: Bluetooth'',
             v_needs_replanning = Some True,
             v_current_state = Some (Some wifi_screen) \<rparr>],
      [verify_prompt ''Network settings visible'' ''{}''])
   \<and> verify_step plain_verifier 1 (checked_step ''tap'' ''Bluetooth'' ''Bluetooth screen open'')
       failed_tap_result [] =
     (Inr \<lparr> v_step_num = Some 1, v_status = Some ''FAILED'', v_reason = None,
             v_confidence = None,
             v_error = Some ''Could not find element: Bluetooth'',
             v_needs_replanning = Some True,
             v_current_state = Some (Some wifi_screen) \<rparr>, [])"
proof -
  let ?failed = "\<lparr> v_step_num = Some 1, v_status = Some ''FAILED'', v_reason = None,
             v_confidence = None,
             v_error = Some ''Could not find element: Bluetooth'',
             v_needs_replanning = Some True,
             v_current_state = Some (Some wifi_screen) \<rparr>"
  let ?vs = "[(passed_result ''Expected content found'')
             \<lparr> v_step_num := Some 0, v_current_state := Some (Some wifi_screen) \<rparr>, ?failed]"
  let ?calls = "[verify_prompt ''Network settings visible'' ''{}'']"
  have failed: "\<not> r_success failed_tap_result" by (simp add: failed_tap_result_def)
  have run: "verify_results plain_verifier two_checked_steps [scroll_result, failed_tap_result] []
      = (Inr ?vs, ?calls)"
    by code_simp
  note inst = failed_step_forces_replanning [of failed_tap_result plain_verifier 1
      "checked_step ''tap'' ''Bluetooth'' ''Bluetooth screen open''" "[]"
      "[scroll_result, failed_tap_result]" two_checked_steps ?vs ?calls]
  from inst failed obtain v where
    v: "verify_step plain_verifier 1 (checked_step ''tap'' ''Bluetooth'' ''Bluetooth screen open'')
          failed_tap_result [] = (Inr v, [])"
    by blast
  then have "v = ?failed"
    by (simp add: verify_step_def failed_tap_result_def error_of_def)
  with v run show ?thesis by simp
qed

subsection \<open>The planner's fallback\<close>

text \<open>
  C7, as stated, fails when the client answers with JSON that is no well-formed plan:
  the parsed value is returned unchecked. For the answer \<open>[]\<close> the returned plan has no
  step.
\<close>

theorem create_test_plan_returns_empty_plan:
  "fst (create_test_plan empty_list_llm loads_empty_list ''Test turning WiFi on and off'' [])
     = Inr (JArr [])
   \<and> \<not> well_formed_plan (JArr [])"
  by (simp add: create_test_plan_def generate_def empty_list_llm_def loads_empty_list_def
        py_len_def well_formed_plan_def)

lemma default_plan_well_formed: "well_formed_plan get_default_wifi_test_plan"
  by (simp add: well_formed_plan_def get_default_wifi_test_plan_def plan_step_def
        step_field_def str_truthy_def)

text \<open>
  C7, amended. When \<open>json.loads\<close> raises \<open>JSONDecodeError\<close> on the client's
  response (text that is not JSON, the empty text among them), \<open>_create_test_plan\<close>
  returns the built-in template plan after the one call of the client; the template
  has at least one step, each with a non-empty target and a non-empty expected outcome,
  and producing it cannot fail. When the response parses to a list, a dict or a string,
  the parsed value is returned as it is, without validation.
\<close>

theorem create_test_plan_fallback:
  "(json_loads (llm calls (create_plan_prompt goal)) = Inl JSONDecodeError \<longrightarrow>
      create_test_plan llm json_loads goal calls
        = (Inr get_default_wifi_test_plan, calls @ [create_plan_prompt goal]))
   \<and> well_formed_plan get_default_wifi_test_plan
   \<and> (\<forall>plan. json_loads (llm calls (create_plan_prompt goal)) = Inr plan
             \<and> py_len plan \<noteq> None \<longrightarrow>
        create_test_plan llm json_loads goal calls
          = (Inr plan, calls @ [create_plan_prompt goal]))"
  by (auto simp: create_test_plan_def generate_def default_plan_well_formed
      split: option.splits)

theorem create_test_plan_fallback_witness:
  "create_test_plan prose_llm loads_empty_list ''Test turning WiFi on and off'' []
     = (Inr get_default_wifi_test_plan, [create_plan_prompt ''Test turning WiFi on and off''])
   \<and> create_test_plan empty_list_llm loads_empty_list ''Test turning WiFi on and off'' []
     = (Inr (JArr []), [create_plan_prompt ''Test turning WiFi on and off''])"
proof -
  have unparsable: "loads_empty_list
      (prose_llm [] (create_plan_prompt ''Test turning WiFi on and off'')) = Inl JSONDecodeError"
    by (simp add: loads_empty_list_def prose_llm_def)
  have parsed: "loads_empty_list
      (empty_list_llm [] (create_plan_prompt ''Test turning WiFi on and off'')) = Inr (JArr [])
      \<and> py_len (JArr []) \<noteq> None"
    by (simp add: loads_empty_list_def empty_list_llm_def py_len_def)
  from create_test_plan_fallback [of loads_empty_list prose_llm "[]"
      "''Test turning WiFi on and off''"] unparsable
  have a: "create_test_plan prose_llm loads_empty_list ''Test turning WiFi on and off'' []
     = (Inr get_default_wifi_test_plan, [create_plan_prompt ''Test turning WiFi on and off''])"
    by simp
  from create_test_plan_fallback [of loads_empty_list empty_list_llm "[]"
      "''Test turning WiFi on and off''"] parsed
  have b: "create_test_plan empty_list_llm loads_empty_list ''Test turning WiFi on and off'' []
     = (Inr (JArr []), [create_plan_prompt ''Test turning WiFi on and off''])"
    by simp
  from a b show ?thesis by blast
qed

subsection \<open>The iteration budget of the orchestrator loop\<close>

lemma run_loop_iterations:
  "iteration \<le> max_iterations \<Longrightarrow>
     rr_iterations (run_loop A max_iterations iteration current_message response s out)
       \<le> max_iterations"
proof (induction A max_iterations iteration current_message response s out
    rule: run_loop.induct)
  case (1 A max_iterations iteration current_message response s out)
  show ?case
  proof (cases "iteration < max_iterations")
    case False
    with "1.prems" show ?thesis by (subst run_loop.simps) simp
  next
    case True
    then have suc: "iteration + 1 \<le> max_iterations" by simp
    show ?thesis
    proof (cases current_message)
      case None
      with True suc show ?thesis by (subst run_loop.simps) simp
    next
      case (Some msg)
      show ?thesis
      proof (cases "route A msg s")
        case None
        with True Some suc show ?thesis
          by (subst run_loop.simps) (simp add: Let_def split: option.splits)
      next
        case routed: (Some res)
        show ?thesis
        proof (cases res)
          case (Inl err)
          with True Some routed suc show ?thesis
            by (subst run_loop.simps) (simp add: Let_def)
        next
          case (Inr pair)
          obtain response' s' where pair: "pair = (response', s')" by (cases pair)
          from "1.IH" [OF True Some refl routed Inr pair [symmetric] suc]
          show ?thesis
            using True Some routed Inr pair
            by (subst run_loop.simps) (simp add: Let_def)
        qed
      qed
    qed
  qed
qed

lemma run_loop_exhausted:
  "iteration \<le> max_iterations \<Longrightarrow>
   rr_raised (run_loop A max_iterations iteration current_message response s out) = None \<Longrightarrow>
   \<not> list_ex break_line
        (rr_events (run_loop A max_iterations iteration current_message response s out)) \<Longrightarrow>
   rr_iterations (run_loop A max_iterations iteration current_message response s out)
      = max_iterations
   \<and> (\<exists>ev. rr_events (run_loop A max_iterations iteration current_message response s out)
            = out @ ev \<and> list_all loop_line ev)"
proof (induction A max_iterations iteration current_message response s out
    rule: run_loop.induct)
  case (1 A max_iterations iteration current_message response s out)
  note prems = "1.prems"
  show ?case
  proof (cases "iteration < max_iterations")
    case False
    with prems(1) have "iteration = max_iterations" by simp
    with False show ?thesis by (subst run_loop.simps, subst run_loop.simps) simp
  next
    case True
    then have suc: "iteration + 1 \<le> max_iterations" by simp
    show ?thesis
    proof (cases current_message)
      case None
      with True prems(2) show ?thesis by (subst (asm) run_loop.simps) simp
    next
      case (Some msg)
      show ?thesis
      proof (cases "route A msg s")
        case None
        with True Some prems(2,3) show ?thesis
          by (subst (asm) (1 2) run_loop.simps)
             (simp add: Let_def break_line_def split: option.splits if_splits)
      next
        case routed: (Some res)
        show ?thesis
        proof (cases res)
          case (Inl err)
          with True Some routed prems(2) show ?thesis
            by (subst (asm) run_loop.simps) (simp add: Let_def)
        next
          case (Inr pair)
          obtain response' s' where pair: "pair = (response', s')" by (cases pair)
          let ?step = "[PrintIteration (iteration + 1) (m_message_type msg)]
                 @ [LogStep (m_recipient msg) (m_message_type msg)]
                 @ (if m_recipient msg = ''ExecutorAgent''
                    then [SaveScreenshot (iteration + 1)] else [])"
          have unfold: "run_loop A max_iterations iteration current_message response s out
              = run_loop A max_iterations (iteration + 1) response' response' s' (out @ ?step)"
            using True Some routed Inr pair by (subst run_loop.simps) (simp add: Let_def)
          from "1.IH" [OF True Some refl routed Inr pair [symmetric] suc]
            prems(2,3) unfold
          obtain ev where
            it: "rr_iterations (run_loop A max_iterations iteration current_message response s out)
                   = max_iterations"
            and ev: "rr_events (run_loop A max_iterations iteration current_message response s out)
                   = (out @ ?step) @ ev" and ll: "list_all loop_line ev"
            by auto
          have "list_all loop_line (?step @ ev)" using ll by (simp add: loop_line_def)
          with it ev show ?thesis by (metis append.assoc)
        qed
      qed
    qed
  qed
qed

text \<open>
  C2, amended. Whatever the agents do, \<open>run_test\<close> ends after at most 10 iterations
  of the loop. Every run that ends without an exception ends with the closing line
  \<open>Test execution finished!\<close>. A run in which no agent fails and no message reaches
  \<open>System\<close> or an unknown recipient, so that neither \<open>break\<close> branch prints its line,
  runs exactly 10 iterations and consists of the opening events, the events of the ten
  iterations and the closing line: budget exhaustion produces no status and no report
  of its own.
\<close>

theorem run_test_budget:
  "rr_iterations (run_test A goal_content now test_goal s) \<le> 10
   \<and> (rr_raised (run_test A goal_content now test_goal s) = None \<longrightarrow>
        last (rr_events (run_test A goal_content now test_goal s)) = PrintTestExecutionFinished)
   \<and> (rr_raised (run_test A goal_content now test_goal s) = None
        \<and> \<not> list_ex break_line (rr_events (run_test A goal_content now test_goal s)) \<longrightarrow>
        rr_iterations (run_test A goal_content now test_goal s) = 10
        \<and> (\<exists>ev. rr_events (run_test A goal_content now test_goal s)
               = [PrintStartingTest test_goal, LogStep ''System'' ''test_start''] @ ev
                 @ [PrintTestExecutionFinished]
             \<and> list_all loop_line ev))"
proof (intro conjI impI)
  let ?init = "\<lparr> m_sender = ''System'', m_recipient = ''PlannerAgent'',
              m_message_type = ''create_plan'', m_content = goal_content test_goal,
              m_timestamp = now \<rparr>"
  let ?out = "[PrintStartingTest test_goal, LogStep ''System'' ''test_start'']"
  let ?r = "run_loop A 10 0 (Some ?init) None s ?out"
  have rt: "run_test A goal_content now test_goal s =
      (if rr_raised ?r = None then ?r\<lparr> rr_events := rr_events ?r @ [PrintTestExecutionFinished] \<rparr>
       else ?r)"
    by (simp add: run_test_def Let_def)
  have "rr_iterations ?r \<le> 10" by (rule run_loop_iterations) simp
  with rt show "rr_iterations (run_test A goal_content now test_goal s) \<le> 10" by simp
  show "last (rr_events (run_test A goal_content now test_goal s)) = PrintTestExecutionFinished"
    if "rr_raised (run_test A goal_content now test_goal s) = None"
    using that rt by (simp split: if_splits)
  assume quiet: "rr_raised (run_test A goal_content now test_goal s) = None
        \<and> \<not> list_ex break_line (rr_events (run_test A goal_content now test_goal s))"
  with rt have raised: "rr_raised ?r = None" by (simp split: if_splits)
  with rt quiet have nobreak: "\<not> list_ex break_line (rr_events ?r)" by simp
  from run_loop_exhausted [OF _ raised nobreak] obtain ev where
    it: "rr_iterations ?r = 10" and ev: "rr_events ?r = ?out @ ev" and ll: "list_all loop_line ev"
    by auto
  from rt raised it show "rr_iterations (run_test A goal_content now test_goal s) = 10" by simp
  from rt raised ev ll show "\<exists>ev. rr_events (run_test A goal_content now test_goal s)
               = [PrintStartingTest test_goal, LogStep ''System'' ''test_start''] @ ev
                 @ [PrintTestExecutionFinished]
             \<and> list_all loop_line ev"
    by auto
qed

text \<open>
  C2, as stated, fails in its second half. On the cyclic routing the loop stops after
  ten iterations, and all that \<open>run_test\<close> prints or calls is listed below: after the
  tenth iteration there is only the closing line, the same line that ends a run which
  delivered its report; no final report is handled, nothing names the exhausted budget,
  and the function returns \<open>None\<close> as it always does.
\<close>

theorem budget_exhaustion_not_reported:
  "run_test cyclic_agents no_content 0 ''Test turning WiFi on and off'' () =
     \<lparr> rr_iterations = 10,
       rr_events =
         [PrintStartingTest ''Test turning WiFi on and off'',
          LogStep ''System'' ''test_start'',
          PrintIteration 1 ''create_plan'', LogStep ''PlannerAgent'' ''create_plan'',
          PrintIteration 2 ''execute_plan'', LogStep ''ExecutorAgent'' ''execute_plan'',
          SaveScreenshot 2,
          PrintIteration 3 ''verify_execution'', LogStep ''VerifierAgent'' ''verify_execution'',
          PrintIteration 4 ''replan_needed'', LogStep ''PlannerAgent'' ''replan_needed'',
          PrintIteration 5 ''execute_plan'', LogStep ''ExecutorAgent'' ''execute_plan'',
          SaveScreenshot 5,
          PrintIteration 6 ''verify_execution'', LogStep ''VerifierAgent'' ''verify_execution'',
          PrintIteration 7 ''replan_needed'', LogStep ''PlannerAgent'' ''replan_needed'',
          PrintIteration 8 ''execute_plan'', LogStep ''ExecutorAgent'' ''execute_plan'',
          SaveScreenshot 8,
          PrintIteration 9 ''verify_execution'', LogStep ''VerifierAgent'' ''verify_execution'',
          PrintIteration 10 ''replan_needed'', LogStep ''PlannerAgent'' ''replan_needed'',
          PrintTestExecutionFinished],
       rr_state = (), rr_raised = None \<rparr>
   \<and> last (rr_events (run_test cyclic_agents no_content 0 ''Test turning WiFi on and off'' ()))
     = last (rr_events (run_test passing_agents no_content 0 ''Test turning WiFi on and off'' ()))"
  by code_simp

theorem run_test_budget_witness:
  "rr_iterations (run_test replanning_agents no_content 0 ''Test turning WiFi on and off'' ()) = 10
   \<and> rr_raised (run_test replanning_agents no_content 0 ''Test turning WiFi on and off'' ()) = None
   \<and> last (rr_events (run_test replanning_agents no_content 0 ''Test turning WiFi on and off'' ()))
     = PrintTestExecutionFinished
   \<and> rr_iterations (run_test cyclic_agents no_content 0 ''Test turning WiFi on and off'' ()) = 10
   \<and> rr_iterations (run_test passing_agents no_content 0 ''Test turning WiFi on and off'' ()) = 5"
proof -
  have quiet: "rr_raised (run_test replanning_agents no_content 0 ''Test turning WiFi on and off'' ())
        = None
      \<and> \<not> list_ex break_line
          (rr_events (run_test replanning_agents no_content 0 ''Test turning WiFi on and off'' ()))"
    by code_simp
  have quiet': "rr_raised (run_test cyclic_agents no_content 0 ''Test turning WiFi on and off'' ())
        = None
      \<and> \<not> list_ex break_line
          (rr_events (run_test cyclic_agents no_content 0 ''Test turning WiFi on and off'' ()))"
    by code_simp
  note inst = run_test_budget [of replanning_agents no_content 0
      "''Test turning WiFi on and off''" "()"]
  note inst' = run_test_budget [of cyclic_agents no_content 0
      "''Test turning WiFi on and off''" "()"]
  from inst quiet
  have a: "rr_iterations (run_test replanning_agents no_content 0 ''Test turning WiFi on and off'' ())
      = 10"
    by blast
  from inst quiet
  have c: "last (rr_events (run_test replanning_agents no_content 0 ''Test turning WiFi on and off'' ()))
     = PrintTestExecutionFinished"
    by simp
  from inst' quiet'
  have d: "rr_iterations (run_test cyclic_agents no_content 0 ''Test turning WiFi on and off'' ())
      = 10"
    by blast
  have e: "rr_iterations (run_test passing_agents no_content 0 ''Test turning WiFi on and off'' ()) = 5"
    by code_simp
  from a quiet c d e show ?thesis by blast
qed

end
